theory Spec2Isabelle
  imports Main "HOL-Library.Word" "HOL-Library.Multiset"
begin

section \<open>Code units and the classic locale\<close>

text \<open>
  The library is instantiated as \<open>StrUtil = StrUtilT<char>\<close> and
  \<open>CharUtil = CharUtilT<char>\<close>: a code unit is one byte. It is modelled by
  \<^typ>\<open>char\<close>, a string by \<^typ>\<open>string\<close>, and the byte value is read
  with \<open>of_char\<close>.

  Every classification goes through \<open>mLocale = std::locale::classic()\<close>. The
  functions below are the \<open>ctype<char>\<close> facet of that locale: the seven-bit
  ASCII classes of the "C" locale; a byte of 128 or more belongs to no class and is
  left alone by the case conversions.
\<close>

definition byte :: "char \<Rightarrow> nat" where
  "byte c = of_char c"

definition std_isupper :: "char \<Rightarrow> bool" where
  "std_isupper c = (65 \<le> byte c \<and> byte c \<le> 90)"

definition std_islower :: "char \<Rightarrow> bool" where
  "std_islower c = (97 \<le> byte c \<and> byte c \<le> 122)"

definition std_isdigit :: "char \<Rightarrow> bool" where
  "std_isdigit c = (48 \<le> byte c \<and> byte c \<le> 57)"

definition std_isalpha :: "char \<Rightarrow> bool" where
  "std_isalpha c = (std_isupper c \<or> std_islower c)"

definition std_isalnum :: "char \<Rightarrow> bool" where
  "std_isalnum c = (std_isalpha c \<or> std_isdigit c)"

definition std_isprint :: "char \<Rightarrow> bool" where
  "std_isprint c = (32 \<le> byte c \<and> byte c \<le> 126)"

definition std_isspace :: "char \<Rightarrow> bool" where
  "std_isspace c = (byte c = 32 \<or> (9 \<le> byte c \<and> byte c \<le> 13))"

definition std_iscntrl :: "char \<Rightarrow> bool" where
  "std_iscntrl c = (byte c < 32 \<or> byte c = 127)"

definition std_toupper :: "char \<Rightarrow> char" where
  "std_toupper c = (if std_islower c then char_of (byte c - 32) else c)"

definition std_tolower :: "char \<Rightarrow> char" where
  "std_tolower c = (if std_isupper c then char_of (byte c + 32) else c)"

section \<open>CharUtil.h\<close>

record FileCharMap =
  special :: char
  replacement :: char

definition kBadFileChars :: "FileCharMap list" where
  "kBadFileChars =
    [\<lparr>special = CHR '':'', replacement = CHR ''-''\<rparr>,
     \<lparr>special = CHR 0x22, replacement = CHR 0x27\<rparr>,
     \<lparr>special = CHR ''<'', replacement = CHR ''(''\<rparr>,
     \<lparr>special = CHR ''>'', replacement = CHR '')''\<rparr>,
     \<lparr>special = CHR ''|'', replacement = CHR ''.''\<rparr>,
     \<lparr>special = CHR ''/'', replacement = CHR 0x5C\<rparr>]"

definition kWildcardChars :: "FileCharMap list" where
  "kWildcardChars =
    [\<lparr>special = CHR ''*'', replacement = CHR ''+''\<rparr>,
     \<lparr>special = CHR ''?'', replacement = CHR '' ''\<rparr>]"

datatype AllowWildcards = AllowWildcards_No | AllowWildcards_Yes

text \<open>\<open>CharUtilT::ConvertWildcards\<close> has the two values No and Yes.\<close>

datatype CharUtil_ConvertWildcards = CharUtil_ConvertWildcards_No | CharUtil_ConvertWildcards_Yes

definition CharUtil_IsUpper :: "char \<Rightarrow> bool" where
  "CharUtil_IsUpper c = std_isupper c"

definition CharUtil_IsLower :: "char \<Rightarrow> bool" where
  "CharUtil_IsLower c = std_islower c"

definition CharUtil_ToUpper :: "char \<Rightarrow> char" where
  "CharUtil_ToUpper c = std_toupper c"

definition CharUtil_ToLower :: "char \<Rightarrow> char" where
  "CharUtil_ToLower c = std_tolower c"

definition CharUtil_IsDigit :: "char \<Rightarrow> bool" where
  "CharUtil_IsDigit c = std_isdigit c"

definition CharUtil_IsNumeric :: "char \<Rightarrow> bool" where
  "CharUtil_IsNumeric c = (CharUtil_IsDigit c \<or> c = CHR ''.'')"

definition CharUtil_IsAlphaNum :: "char \<Rightarrow> bool" where
  "CharUtil_IsAlphaNum c = std_isalnum c"

definition CharUtil_IsPrintable :: "char \<Rightarrow> bool" where
  "CharUtil_IsPrintable c = std_isprint c"

definition CharUtil_IsControlChar :: "char \<Rightarrow> bool" where
  "CharUtil_IsControlChar c = std_iscntrl c"

text \<open>
  \<open>c < 0 || c > C(0x7F)\<close>: with a signed \<open>char\<close> the first disjunct holds for the
  bytes 128..255, with an unsigned one the second does.
\<close>

definition CharUtil_IsExtendedAscii :: "char \<Rightarrow> bool" where
  "CharUtil_IsExtendedAscii c = (128 \<le> byte c)"

definition CharUtil_IsWildcardFileChar :: "char \<Rightarrow> bool" where
  "CharUtil_IsWildcardFileChar c = list_ex (\<lambda>i. c = special i) kWildcardChars"

definition CharUtil_IsGoodFileCharEx :: "char \<Rightarrow> AllowWildcards \<Rightarrow> bool" where
  "CharUtil_IsGoodFileCharEx c allowWildcards =
    (if CharUtil_IsControlChar c then False
     else if list_ex (\<lambda>i. c = special i) kBadFileChars then False
     else if allowWildcards = AllowWildcards_No \<and> CharUtil_IsWildcardFileChar c then False
     else True)"

definition CharUtil_IsGoodFileCharWildcardsOK :: "char \<Rightarrow> bool" where
  "CharUtil_IsGoodFileCharWildcardsOK c = CharUtil_IsGoodFileCharEx c AllowWildcards_Yes"

definition CharUtil_IsGoodFileChar :: "char \<Rightarrow> bool" where
  "CharUtil_IsGoodFileChar c = CharUtil_IsGoodFileCharEx c AllowWildcards_No"

definition CharUtil_ToGoodFileCharEx :: "char \<Rightarrow> CharUtil_ConvertWildcards \<Rightarrow> char" where
  "CharUtil_ToGoodFileCharEx c convertWildcards =
    (if CharUtil_IsControlChar c then CHR ''!''
     else case find (\<lambda>i. c = special i) kBadFileChars of
       Some badChar \<Rightarrow> replacement badChar
     | None \<Rightarrow>
        (if convertWildcards = CharUtil_ConvertWildcards_Yes
         then (case find (\<lambda>i. c = special i) kWildcardChars of
                 Some wildcard \<Rightarrow> replacement wildcard
               | None \<Rightarrow> c)
         else c))"

definition CharUtil_ToGoodFileCharConvertWildcards :: "char \<Rightarrow> char" where
  "CharUtil_ToGoodFileCharConvertWildcards c =
     CharUtil_ToGoodFileCharEx c CharUtil_ConvertWildcards_Yes"

definition CharUtil_ToGoodFileChar :: "char \<Rightarrow> char" where
  "CharUtil_ToGoodFileChar c = CharUtil_ToGoodFileCharEx c CharUtil_ConvertWildcards_No"

section \<open>StrUtil.h: whole-string predicates and case conversion\<close>

text \<open>
  \<open>std::ranges::all_of\<close> and \<open>any_of\<close> are \<^const>\<open>list_all\<close> and
  \<^const>\<open>list_ex\<close>; \<open>std::ranges::transform\<close> of a string onto itself is
  \<^const>\<open>map\<close>. A \<open>To...\<close> function, which mutates its argument, returns
  the new value of the string; the \<open>Get...\<close> function copies and calls it.
\<close>

definition StrUtil_IsDigit :: "string \<Rightarrow> bool" where
  "StrUtil_IsDigit str = (str \<noteq> [] \<and> list_all CharUtil_IsDigit str)"

definition StrUtil_IsNumeric :: "string \<Rightarrow> bool" where
  "StrUtil_IsNumeric str =
    (if str = [] then False
     else if str ! 0 = CHR ''-'' then list_all CharUtil_IsNumeric (drop 1 str)
     else list_all CharUtil_IsNumeric str)"

definition StrUtil_IsAlphaNum :: "string \<Rightarrow> bool" where
  "StrUtil_IsAlphaNum str = (str \<noteq> [] \<and> list_all CharUtil_IsAlphaNum str)"

definition StrUtil_IsPrintable :: "string \<Rightarrow> bool" where
  "StrUtil_IsPrintable str = (str \<noteq> [] \<and> list_all CharUtil_IsPrintable str)"

definition StrUtil_IsExtendedAscii :: "string \<Rightarrow> bool" where
  "StrUtil_IsExtendedAscii str = (str \<noteq> [] \<and> list_all CharUtil_IsExtendedAscii str)"

definition StrUtil_IsGoodFileName :: "string \<Rightarrow> AllowWildcards \<Rightarrow> bool" where
  "StrUtil_IsGoodFileName str allowWildcards =
    (if allowWildcards = AllowWildcards_No then list_all CharUtil_IsGoodFileChar str
     else list_all CharUtil_IsGoodFileCharWildcardsOK str)"

definition StrUtil_ContainsWildcard :: "string \<Rightarrow> bool" where
  "StrUtil_ContainsWildcard str = list_ex CharUtil_IsWildcardFileChar str"

definition StrUtil_ToUpper :: "string \<Rightarrow> string" where
  "StrUtil_ToUpper str = map CharUtil_ToUpper str"

definition StrUtil_ToLower :: "string \<Rightarrow> string" where
  "StrUtil_ToLower str = map CharUtil_ToLower str"

definition StrUtil_GetUpper :: "string \<Rightarrow> string" where
  "StrUtil_GetUpper str = StrUtil_ToUpper str"

definition StrUtil_GetLower :: "string \<Rightarrow> string" where
  "StrUtil_GetLower str = StrUtil_ToLower str"

section \<open>StrUtil.h: failures\<close>

text \<open>
  Three things in \<open>StrUtilT\<close> can stop an operation: the \<open>assert\<close> in
  \<open>ToTrimmed\<close>; the \<open>std::out_of_range\<close> that \<open>basic_string::assign\<close>
  and \<open>basic_string::replace\<close> throw when the start position lies beyond the end
  of the string; and the \<open>std::format_error\<close> that \<open>std::format\<close> and
  \<open>std::vformat\<close> throw for a format string they cannot use. All three are values
  of the model: an operation that can reach one of them returns \<open>failure + string\<close>.
\<close>

datatype failure = AssertionFailed | OutOfRange | FormatError

section \<open>StrUtil.h: trimming\<close>

text \<open>
  \<open>str.find_first_not_of(chars)\<close> and \<open>str.find_last_not_of(chars)\<close>: the index of
  the first (last) character of \<open>str\<close> that does not occur in \<open>chars\<close>;
  \<open>npos\<close> is \<open>None\<close>.
\<close>

primrec find_first_not_of :: "string \<Rightarrow> string \<Rightarrow> nat option" where
  "find_first_not_of [] chars = None"
| "find_first_not_of (c # cs) chars =
     (if c \<notin> set chars then Some 0 else map_option Suc (find_first_not_of cs chars))"

primrec find_last_not_of :: "string \<Rightarrow> string \<Rightarrow> nat option" where
  "find_last_not_of [] chars = None"
| "find_last_not_of (c # cs) chars =
     (case find_last_not_of cs chars of
        Some i \<Rightarrow> Some (Suc i)
      | None \<Rightarrow> if c \<notin> set chars then Some 0 else None)"

text \<open>
  \<open>str.assign(str, pos, n)\<close> keeps the characters \<open>pos .. pos + n\<close> of \<open>str\<close>,
  as many as there are, and throws when \<open>pos > str.size()\<close>. \<open>str.resize(n)\<close>
  truncates, or pads with null characters.
\<close>

definition basic_string_assign :: "string \<Rightarrow> nat \<Rightarrow> nat \<Rightarrow> failure + string" where
  "basic_string_assign str pos n =
     (if length str < pos then Inl OutOfRange else Inr (take n (drop pos str)))"

definition basic_string_resize :: "string \<Rightarrow> nat \<Rightarrow> string" where
  "basic_string_resize str n = take n str @ replicate (n - length str) (CHR 0x00)"

definition StrUtil_ToTrimmedLeading :: "string \<Rightarrow> string \<Rightarrow> failure + string" where
  "StrUtil_ToTrimmedLeading str trimCharset =
     (case find_first_not_of str trimCharset of
        None \<Rightarrow> Inr []
      | Some firstNot \<Rightarrow> basic_string_assign str firstNot (length str - firstNot + 1))"

definition StrUtil_GetTrimmedLeading :: "string \<Rightarrow> string \<Rightarrow> failure + string" where
  "StrUtil_GetTrimmedLeading str trimCharset = StrUtil_ToTrimmedLeading str trimCharset"

definition StrUtil_ToTrimmedTrailing :: "string \<Rightarrow> string \<Rightarrow> string" where
  "StrUtil_ToTrimmedTrailing str trimCharset =
     basic_string_resize str
       (case find_last_not_of str trimCharset of None \<Rightarrow> 0 | Some lastNot \<Rightarrow> lastNot + 1)"

definition StrUtil_GetTrimmedTrailing :: "string \<Rightarrow> string \<Rightarrow> string" where
  "StrUtil_GetTrimmedTrailing str trimCharset = StrUtil_ToTrimmedTrailing str trimCharset"

text \<open>
  The \<open>assert( lastNot != strT::npos )\<close> of \<open>ToTrimmed\<close> is the branch
  \<open>AssertionFailed\<close>. The subtraction \<open>lastNot - firstNot\<close> is on \<open>size_t\<close>;
  lemma \<open>first_le_last\<close> below shows that it never wraps.
\<close>

definition StrUtil_ToTrimmed :: "string \<Rightarrow> string \<Rightarrow> failure + string" where
  "StrUtil_ToTrimmed str trimCharset =
     (case find_first_not_of str trimCharset of
        None \<Rightarrow> Inr []
      | Some firstNot \<Rightarrow>
         (case find_last_not_of str trimCharset of
            None \<Rightarrow> Inl AssertionFailed
          | Some lastNot \<Rightarrow> basic_string_assign str firstNot (lastNot - firstNot + 1)))"

definition StrUtil_GetTrimmed :: "string \<Rightarrow> string \<Rightarrow> failure + string" where
  "StrUtil_GetTrimmed str trimCharset = StrUtil_ToTrimmed str trimCharset"

section \<open>StrUtil.h: XML escaping\<close>

text \<open>
  The narrow instantiation takes the \<open>xmlCode\<close> branch of the \<open>if constexpr\<close>, so
  the wide code of an entry is left out of the record.
\<close>

record XmlMarkup =
  symbol :: char
  xmlCode :: string

definition kXmlReplace :: "XmlMarkup list" where
  "kXmlReplace =
    [\<lparr>symbol = CHR ''&'', xmlCode = ''&amp;''\<rparr>,
     \<lparr>symbol = CHR ''<'', xmlCode = ''&lt;''\<rparr>,
     \<lparr>symbol = CHR ''>'', xmlCode = ''&gt;''\<rparr>,
     \<lparr>symbol = CHR 0x22, xmlCode = ''&quot;''\<rparr>,
     \<lparr>symbol = CHR 0x27, xmlCode = ''&apos;''\<rparr>]"

text \<open>
  \<open>str.find(ch, pos)\<close>: the first index at or after \<open>pos\<close> that holds \<open>ch\<close>.
  \<open>str.replace(pos, n, s)\<close>: the \<open>n\<close> characters from \<open>pos\<close> give way to
  \<open>s\<close>; it throws when \<open>pos > str.size()\<close>.
\<close>

primrec find_char :: "char \<Rightarrow> string \<Rightarrow> nat option" where
  "find_char ch [] = None"
| "find_char ch (c # cs) = (if c = ch then Some 0 else map_option Suc (find_char ch cs))"

definition basic_string_find :: "string \<Rightarrow> char \<Rightarrow> nat \<Rightarrow> nat option" where
  "basic_string_find str ch pos =
     (case find_char ch (drop pos str) of None \<Rightarrow> None | Some i \<Rightarrow> Some (pos + i))"

definition basic_string_replace :: "string \<Rightarrow> nat \<Rightarrow> nat \<Rightarrow> string \<Rightarrow> failure + string" where
  "basic_string_replace str pos n s =
     (if length str < pos then Inl OutOfRange
      else Inr (take pos str @ s @ drop (pos + n) str))"

text \<open>
  The inner \<open>while( pos != strT::npos )\<close> loop. Nothing in its text bounds the
  number of rounds (a code that contained its own symbol after the first character
  would be found again and again), so the loop is a partial function and \<open>None\<close>
  stands for a loop that does not end.
\<close>

partial_function (option) ToXmlSafe_while ::
  "char \<Rightarrow> string \<Rightarrow> nat option \<Rightarrow> string \<Rightarrow> (failure + string) option" where
  "ToXmlSafe_while symb code pos str =
     (case pos of
        None \<Rightarrow> Some (Inr str)
      | Some p \<Rightarrow>
         (case basic_string_replace str p 1 code of
            Inl e \<Rightarrow> Some (Inl e)
          | Inr str' \<Rightarrow> ToXmlSafe_while symb code (basic_string_find str' symb (p + 1)) str'))"

text \<open>
  The outer range-\<open>for\<close> over \<open>kXmlReplace\<close>: the symbol comes from the entry
  \<open>specialXml\<close>, the code from \<open>kXmlReplace[ index ]\<close>.
\<close>

fun ToXmlSafe_for :: "XmlMarkup list \<Rightarrow> nat \<Rightarrow> string \<Rightarrow> (failure + string) option" where
  "ToXmlSafe_for [] index str = Some (Inr str)"
| "ToXmlSafe_for (specialXml # rest) index str =
     (case ToXmlSafe_while (symbol specialXml) (xmlCode (kXmlReplace ! index))
             (basic_string_find str (symbol specialXml) 0) str of
        None \<Rightarrow> None
      | Some (Inl e) \<Rightarrow> Some (Inl e)
      | Some (Inr str') \<Rightarrow> ToXmlSafe_for rest (index + 1) str')"

definition StrUtil_ToXmlSafe :: "string \<Rightarrow> (failure + string) option" where
  "StrUtil_ToXmlSafe str = ToXmlSafe_for kXmlReplace 0 str"

definition StrUtil_GetXmlSafe :: "string \<Rightarrow> (failure + string) option" where
  "StrUtil_GetXmlSafe str = StrUtil_ToXmlSafe str"

text \<open>
  The specification's reading of XML escaping, written from its words and not from
  the code: every character is replaced, on its own and at once, by its escape
  sequence.
\<close>

definition xml_escape_char_spec :: "char \<Rightarrow> string" where
  "xml_escape_char_spec c =
     (if c = CHR ''&'' then ''&amp;''
      else if c = CHR ''<'' then ''&lt;''
      else if c = CHR ''>'' then ''&gt;''
      else if c = CHR 0x22 then ''&quot;''
      else if c = CHR 0x27 then ''&apos;''
      else [c])"

definition xml_escape_spec :: "string \<Rightarrow> string" where
  "xml_escape_spec s = concat (map xml_escape_char_spec s)"

text \<open>One pass of the loop, as a substitution (used in the proofs).\<close>

definition subst_char :: "char \<Rightarrow> string \<Rightarrow> char \<Rightarrow> string" where
  "subst_char symb code c = (if c = symb then code else [c])"

section \<open>StrUtil.h: file names\<close>

datatype ConvertWildcards = ConvertWildcards_No | ConvertWildcards_Yes | ConvertWildcards_Remove

text \<open>
  \<open>std::ranges::remove_if\<close>, as the algorithm runs: find the first character to
  remove, then move every later character that stays down to the write position
  \<open>first\<close>. It returns the string as it then is, with the index where the leftover
  tail begins; \<open>str.erase( removedBeg, removedEnd )\<close> cuts that tail off.
\<close>

primrec find_if :: "(char \<Rightarrow> bool) \<Rightarrow> string \<Rightarrow> nat option" where
  "find_if pred [] = None"
| "find_if pred (c # cs) = (if pred c then Some 0 else map_option Suc (find_if pred cs))"

function remove_if_loop :: "(char \<Rightarrow> bool) \<Rightarrow> string \<Rightarrow> nat \<Rightarrow> nat \<Rightarrow> string \<times> nat" where
  "remove_if_loop pred str first i =
     (if i < length str
      then (if \<not> pred (str ! i)
            then remove_if_loop pred (str[first := str ! i]) (Suc first) (Suc i)
            else remove_if_loop pred str first (Suc i))
      else (str, first))"
  by pat_completeness auto
termination
  by (relation "measure (\<lambda>(pred, str, first, i). length str - i)") auto

declare remove_if_loop.simps [simp del]

definition remove_if :: "string \<Rightarrow> (char \<Rightarrow> bool) \<Rightarrow> string \<times> nat" where
  "remove_if str pred =
     (case find_if pred str of
        None \<Rightarrow> (str, length str)
      | Some first \<Rightarrow> remove_if_loop pred str first (Suc first))"

definition basic_string_erase :: "string \<Rightarrow> nat \<Rightarrow> nat \<Rightarrow> string" where
  "basic_string_erase str firstPos lastPos = take firstPos str @ drop lastPos str"

definition StrUtil_ToGoodFileName :: "string \<Rightarrow> ConvertWildcards \<Rightarrow> string" where
  "StrUtil_ToGoodFileName str convertWildcards =
     (case convertWildcards of
        ConvertWildcards_No \<Rightarrow> map CharUtil_ToGoodFileChar str
      | ConvertWildcards_Yes \<Rightarrow> map CharUtil_ToGoodFileCharConvertWildcards str
      | ConvertWildcards_Remove \<Rightarrow>
          (let str' = map CharUtil_ToGoodFileChar str;
               (str'', removedBeg) = remove_if str' CharUtil_IsWildcardFileChar
           in basic_string_erase str'' removedBeg (length str'')))"

definition StrUtil_GetGoodFileName :: "string \<Rightarrow> ConvertWildcards \<Rightarrow> string" where
  "StrUtil_GetGoodFileName str convertWildcards = StrUtil_ToGoodFileName str convertWildcards"

section \<open>StrUtil.h: durations\<close>

text \<open>
  \<open>GetDurationStr\<close> builds its result with \<open>std::format\<close> and
  \<open>std::vformat\<close>. Both are standard-library code and not part of the sources, and
  the library implementations do not agree on \<open>%H\<close> for a duration of 24 hours or
  more. The formatting facility is therefore modelled from the specification, which
  fixes it by its output: \<open><days>\<close> as unpadded decimal, and \<open>HH\<close>, \<open>MM\<close>,
  \<open>SS\<close> always exactly two digits, zero-padded, on the fixed conversions of 60
  seconds to the minute, 60 minutes to the hour and 24 hours to the day.
\<close>

text \<open>
  Modelled from the spec: the decimal digits of a number, unpadded (what the missing
  \<open>std::format\<close> prints for \<open>{}\<close>).
\<close>

fun show_nat :: "nat \<Rightarrow> string" where
  "show_nat n =
     (if n < 10 then [''0123456789'' ! n]
      else show_nat (n div 10) @ [''0123456789'' ! (n mod 10)])"

declare show_nat.simps [simp del]

text \<open>
  Modelled from the spec: a field of the missing \<open>std::vformat\<close>, zero-padded to
  two digits.
\<close>

definition two_digits :: "nat \<Rightarrow> string" where
  "two_digits n = (if n < 10 then CHR ''0'' # show_nat n else show_nat n)"

text \<open>Puts text in front of the output of a formatter, and keeps its failure.\<close>

definition then_append :: "string \<Rightarrow> failure + string \<Rightarrow> failure + string" where
  "then_append p r = (case r of Inl e \<Rightarrow> Inl e | Inr t \<Rightarrow> Inr (p @ t))"

text \<open>
  Modelled from the spec: the missing \<open>std::format\<close> with integer arguments. A
  field \<open>{}\<close> is replaced by the unpadded decimal digits of the next argument; a
  brace that does not belong to such a field, or a field with no argument left, is a
  format error; every other character is copied.
\<close>

fun std_format :: "string \<Rightarrow> nat list \<Rightarrow> failure + string" where
  "std_format [] args = Inr []"
| "std_format [c] args = (if c = CHR ''{'' \<or> c = CHR ''}'' then Inl FormatError else Inr [c])"
| "std_format (c # d # fs) args =
     (if c = CHR ''{'' \<and> d = CHR ''}''
      then (case args of
              [] \<Rightarrow> Inl FormatError
            | a # rest \<Rightarrow> then_append (show_nat a) (std_format fs rest))
      else if c = CHR ''{'' \<or> c = CHR ''}'' then Inl FormatError
      else then_append [c] (std_format (d # fs) args))"

text \<open>
  Modelled from the spec: the conversion specifiers of the missing \<open>std::vformat\<close>
  for a duration of \<open>n\<close> seconds. \<open>%H\<close>, \<open>%M\<close> and \<open>%S\<close> print the hour of
  the day, the minute of the hour and the second of the minute, each with exactly two
  digits; a \<open>%\<close> followed by anything else, or by nothing, is a format error; every
  other character is copied.
\<close>

fun chrono_format :: "string \<Rightarrow> nat \<Rightarrow> failure + string" where
  "chrono_format [] n = Inr []"
| "chrono_format [c] n = (if c = CHR ''%'' then Inl FormatError else Inr [c])"
| "chrono_format (c # t # fs) n =
     (if c = CHR ''%''
      then (if t = CHR ''H'' then then_append (two_digits (n div 3600 mod 24)) (chrono_format fs n)
            else if t = CHR ''M'' then then_append (two_digits (n div 60 mod 60)) (chrono_format fs n)
            else if t = CHR ''S'' then then_append (two_digits (n mod 60)) (chrono_format fs n)
            else Inl FormatError)
      else then_append [c] (chrono_format (t # fs) n))"

text \<open>
  Modelled from the spec: the missing \<open>std::vformat\<close> with one duration argument.
  The format string is one replacement field, the conversion specifiers standing
  between \<open>{:\<close> and \<open>}\<close>; any other shape is a format error. The specification
  is silent on a negative duration: it is printed as a minus sign and the fields of
  its absolute value.
\<close>

definition std_vformat :: "string \<Rightarrow> int \<Rightarrow> failure + string" where
  "std_vformat fmt sec =
     (if take 2 fmt = ''{:'' \<and> fmt \<noteq> [] \<and> last fmt = CHR ''}''
      then (let spec = butlast (drop 2 fmt)
            in if sec < 0 then then_append ''-'' (chrono_format spec (nat (- sec)))
               else chrono_format spec (nat sec))
      else Inl FormatError)"

definition kHhMmSs :: string where
  "kHhMmSs = ''{:%Hh:%Mm:%Ss}''"

definition kMmSs :: string where
  "kMmSs = ''{:%Mm:%Ss}''"

text \<open>
  \<open>totalSeconds\<close> and \<open>minDays\<close> are \<open>uint64_t\<close>; \<open>std::chrono::seconds\<close>
  counts in a signed 64-bit integer, so the conversion reads the word with \<open>sint\<close>.
\<close>

definition StrUtil_GetDurationStr :: "64 word \<Rightarrow> 64 word \<Rightarrow> failure + string" where
  "StrUtil_GetDurationStr totalSeconds minDays =
     (let kSecondsPerHour = 60 * 60;
          kHoursPerDay = 24;
          kSecondsPerDay = kSecondsPerHour * kHoursPerDay;
          totalHours = totalSeconds div kSecondsPerHour;
          totalDays = totalHours div kHoursPerDay
      in if minDays \<le> totalDays
         then (case std_format ''{}d:'' [unat totalDays] of
                 Inl e \<Rightarrow> Inl e
               | Inr duration \<Rightarrow>
                   then_append duration
                     (std_vformat kHhMmSs (sint (totalSeconds - totalDays * kSecondsPerDay))))
         else std_vformat (if totalHours = 0 then kMmSs else kHhMmSs) (sint totalSeconds))"

section \<open>StrUtil.h: the string list\<close>

record StrListT =
  list_items :: "string list"

text \<open>The constructor from a range, \<open>size\<close> and \<open>push_back\<close>.\<close>

definition StrListT_range :: "string list \<Rightarrow> StrListT" where
  "StrListT_range elems = \<lparr>list_items = elems\<rparr>"

definition StrList_size :: "StrListT \<Rightarrow> nat" where
  "StrList_size l = length (list_items l)"

definition StrList_push_back :: "StrListT \<Rightarrow> string \<Rightarrow> StrListT" where
  "StrList_push_back l str = l\<lparr>list_items := list_items l @ [str]\<rparr>"

text \<open>
  The loop of \<open>operator==\<close> walks both lists until \<open>i\<close> reaches \<open>lhs.end()\<close>.
  Reading \<open>*j\<close> after the end of \<open>rhs\<close> has no defined behaviour: that is \<open>None\<close>.
\<close>

fun StrList_eq_loop :: "string list \<Rightarrow> string list \<Rightarrow> bool option" where
  "StrList_eq_loop [] js = Some True"
| "StrList_eq_loop (i # is) [] = None"
| "StrList_eq_loop (i # is) (j # js) = (if i \<noteq> j then Some False else StrList_eq_loop is js)"

definition StrList_operator_eq :: "StrListT \<Rightarrow> StrListT \<Rightarrow> bool option" where
  "StrList_operator_eq lhs rhs =
     (if StrList_size lhs \<noteq> StrList_size rhs then Some False
      else StrList_eq_loop (list_items lhs) (list_items rhs))"

section \<open>StrUtil.h: the public interface of StrUtilT\<close>

text \<open>
  The public static members of \<open>StrUtilT\<close>, as a datatype of calls with their
  arguments, and the outcome of a call: \<open>None\<close> when the call does not return,
  \<open>Some (Inl f)\<close> when it stops with the failure \<open>f\<close>, \<open>Some (Inr v)\<close> when it
  returns \<open>v\<close>. An operation whose source has no assertion, no throwing library call
  and no loop but a pass over its argument returns its value directly.
\<close>

datatype StrUtil_call =
    Call_ToXmlSafe string
  | Call_GetXmlSafe string
  | Call_ToTrimmedLeading string string
  | Call_GetTrimmedLeading string string
  | Call_ToTrimmedTrailing string string
  | Call_GetTrimmedTrailing string string
  | Call_ToTrimmed string string
  | Call_GetTrimmed string string
  | Call_IsDigit string
  | Call_IsNumeric string
  | Call_IsAlphaNum string
  | Call_IsPrintable string
  | Call_IsExtendedAscii string
  | Call_IsGoodFileName string AllowWildcards
  | Call_ContainsWildcard string
  | Call_ToGoodFileName string ConvertWildcards
  | Call_GetGoodFileName string ConvertWildcards
  | Call_ToUpper string
  | Call_ToLower string
  | Call_GetUpper string
  | Call_GetLower string
  | Call_GetDurationStr "64 word" "64 word"

datatype StrUtil_value = StringValue string | BoolValue bool

definition string_outcome :: "failure + string \<Rightarrow> (failure + StrUtil_value) option" where
  "string_outcome r = Some (case r of Inl e \<Rightarrow> Inl e | Inr t \<Rightarrow> Inr (StringValue t))"

definition StrUtil_run :: "StrUtil_call \<Rightarrow> (failure + StrUtil_value) option" where
  "StrUtil_run call =
     (case call of
        Call_ToXmlSafe str \<Rightarrow>
          (case StrUtil_ToXmlSafe str of None \<Rightarrow> None | Some r \<Rightarrow> string_outcome r)
      | Call_GetXmlSafe str \<Rightarrow>
          (case StrUtil_GetXmlSafe str of None \<Rightarrow> None | Some r \<Rightarrow> string_outcome r)
      | Call_ToTrimmedLeading str trimCharset \<Rightarrow>
          string_outcome (StrUtil_ToTrimmedLeading str trimCharset)
      | Call_GetTrimmedLeading str trimCharset \<Rightarrow>
          string_outcome (StrUtil_GetTrimmedLeading str trimCharset)
      | Call_ToTrimmedTrailing str trimCharset \<Rightarrow>
          string_outcome (Inr (StrUtil_ToTrimmedTrailing str trimCharset))
      | Call_GetTrimmedTrailing str trimCharset \<Rightarrow>
          string_outcome (Inr (StrUtil_GetTrimmedTrailing str trimCharset))
      | Call_ToTrimmed str trimCharset \<Rightarrow> string_outcome (StrUtil_ToTrimmed str trimCharset)
      | Call_GetTrimmed str trimCharset \<Rightarrow> string_outcome (StrUtil_GetTrimmed str trimCharset)
      | Call_IsDigit str \<Rightarrow> Some (Inr (BoolValue (StrUtil_IsDigit str)))
      | Call_IsNumeric str \<Rightarrow> Some (Inr (BoolValue (StrUtil_IsNumeric str)))
      | Call_IsAlphaNum str \<Rightarrow> Some (Inr (BoolValue (StrUtil_IsAlphaNum str)))
      | Call_IsPrintable str \<Rightarrow> Some (Inr (BoolValue (StrUtil_IsPrintable str)))
      | Call_IsExtendedAscii str \<Rightarrow> Some (Inr (BoolValue (StrUtil_IsExtendedAscii str)))
      | Call_IsGoodFileName str allowWildcards \<Rightarrow>
          Some (Inr (BoolValue (StrUtil_IsGoodFileName str allowWildcards)))
      | Call_ContainsWildcard str \<Rightarrow> Some (Inr (BoolValue (StrUtil_ContainsWildcard str)))
      | Call_ToGoodFileName str convertWildcards \<Rightarrow>
          string_outcome (Inr (StrUtil_ToGoodFileName str convertWildcards))
      | Call_GetGoodFileName str convertWildcards \<Rightarrow>
          string_outcome (Inr (StrUtil_GetGoodFileName str convertWildcards))
      | Call_ToUpper str \<Rightarrow> string_outcome (Inr (StrUtil_ToUpper str))
      | Call_ToLower str \<Rightarrow> string_outcome (Inr (StrUtil_ToLower str))
      | Call_GetUpper str \<Rightarrow> string_outcome (Inr (StrUtil_GetUpper str))
      | Call_GetLower str \<Rightarrow> string_outcome (Inr (StrUtil_GetLower str))
      | Call_GetDurationStr totalSeconds minDays \<Rightarrow>
          string_outcome (StrUtil_GetDurationStr totalSeconds minDays))"

section \<open>Lemmas: case conversion\<close>

lemma byte_char_of: "n < 256 \<Longrightarrow> byte (char_of n) = n"
  by (simp add: byte_def)

lemma std_toupper_not_lower: "\<not> std_islower (std_toupper c)"
proof (cases "std_islower c")
  case True
  then have "byte c - 32 < 256"
    unfolding std_islower_def by arith
  then have "byte (char_of (byte c - 32)) = byte c - 32"
    by (rule byte_char_of)
  with True show ?thesis
    by (auto simp: std_toupper_def std_islower_def)
next
  case False
  then show ?thesis by (simp add: std_toupper_def)
qed

lemma std_tolower_not_upper: "\<not> std_isupper (std_tolower c)"
proof (cases "std_isupper c")
  case True
  then have "byte c + 32 < 256"
    unfolding std_isupper_def by arith
  then have "byte (char_of (byte c + 32)) = byte c + 32"
    by (rule byte_char_of)
  with True show ?thesis
    by (auto simp: std_tolower_def std_isupper_def)
next
  case False
  then show ?thesis by (simp add: std_tolower_def)
qed

lemma CharUtil_ToUpper_idem: "CharUtil_ToUpper (CharUtil_ToUpper c) = CharUtil_ToUpper c"
  using std_toupper_not_lower [of c]
  by (simp add: CharUtil_ToUpper_def std_toupper_def)

lemma CharUtil_ToLower_idem: "CharUtil_ToLower (CharUtil_ToLower c) = CharUtil_ToLower c"
  using std_tolower_not_upper [of c]
  by (simp add: CharUtil_ToLower_def std_tolower_def)

section \<open>Lemmas: trimming\<close>

lemma find_first_not_of_None:
  "find_first_not_of s T = None \<longleftrightarrow> set s \<subseteq> set T"
  by (induction s) auto

lemma find_first_not_of_Some:
  assumes "find_first_not_of s T = Some i"
  shows "i = length (takeWhile (\<lambda>c. c \<in> set T) s)" and "i < length s" and "s ! i \<notin> set T"
  using assms by (induction s arbitrary: i) (auto split: if_splits)

lemma find_last_not_of_None:
  "find_last_not_of s T = None \<longleftrightarrow> set s \<subseteq> set T"
  by (induction s) (auto split: option.splits)

lemma find_last_not_of_Some:
  assumes "find_last_not_of s T = Some j"
  shows "j < length s" and "s ! j \<notin> set T" and "set (drop (Suc j) s) \<subseteq> set T"
  using assms
  by (induction s arbitrary: j) (auto split: option.splits if_splits simp: find_last_not_of_None)

lemma takeWhile_length_le_nth:
  "k < length s \<Longrightarrow> \<not> P (s ! k) \<Longrightarrow> length (takeWhile P s) \<le> k"
proof (rule ccontr)
  assume k: "k < length s" and n: "\<not> P (s ! k)" and "\<not> length (takeWhile P s) \<le> k"
  then have lt: "k < length (takeWhile P s)" by simp
  then have "takeWhile P s ! k = s ! k" by (rule takeWhile_nth)
  moreover have "takeWhile P s ! k \<in> set (takeWhile P s)" using lt by simp
  ultimately show False using n by (auto dest: set_takeWhileD)
qed

lemma first_le_last:
  assumes "find_first_not_of s T = Some i" and "find_last_not_of s T = Some j"
  shows "i \<le> j"
  using find_first_not_of_Some(1) [OF assms(1)] find_last_not_of_Some(1,2) [OF assms(2)]
    takeWhile_length_le_nth [of j s "\<lambda>c. c \<in> set T"]
  by simp

lemma find_first_not_of_hd:
  "r \<noteq> [] \<Longrightarrow> hd r \<notin> set T \<Longrightarrow> find_first_not_of r T = Some 0"
  by (cases r) auto

lemma find_last_not_of_last:
  "r \<noteq> [] \<Longrightarrow> last r \<notin> set T \<Longrightarrow> find_last_not_of r T = Some (length r - 1)"
proof (induction r)
  case Nil
  then show ?case by simp
next
  case (Cons a r)
  show ?case
  proof (cases "r = []")
    case True
    with Cons.prems show ?thesis by simp
  next
    case False
    with Cons have "find_last_not_of r T = Some (length r - 1)" by simp
    with False show ?thesis by simp
  qed
qed

lemma ToTrimmedLeading_dropWhile:
  "StrUtil_ToTrimmedLeading s T = Inr (dropWhile (\<lambda>c. c \<in> set T) s)"
proof (cases "find_first_not_of s T")
  case None
  then have "set s \<subseteq> set T" by (simp add: find_first_not_of_None)
  then have "dropWhile (\<lambda>c. c \<in> set T) s = []" by auto
  with None show ?thesis by (simp add: StrUtil_ToTrimmedLeading_def del: dropWhile_eq_Nil_conv)
next
  case (Some i)
  note i = find_first_not_of_Some(1) [OF Some] and lt = find_first_not_of_Some(2) [OF Some]
  have "StrUtil_ToTrimmedLeading s T = basic_string_assign s i (length s - i + 1)"
    using Some by (simp add: StrUtil_ToTrimmedLeading_def)
  also have "\<dots> = Inr (drop i s)"
    using lt by (simp add: basic_string_assign_def)
  also have "drop i s = dropWhile (\<lambda>c. c \<in> set T) s"
    by (subst i) (simp add: dropWhile_eq_drop)
  finally show ?thesis .
qed

lemma ToTrimmed_cases:
  "(find_first_not_of s T = None \<and> StrUtil_ToTrimmed s T = Inr []) \<or>
   (\<exists>i j. find_first_not_of s T = Some i \<and> find_last_not_of s T = Some j \<and> i \<le> j \<and>
      j < length s \<and> s ! i \<notin> set T \<and> s ! j \<notin> set T \<and>
      StrUtil_ToTrimmed s T = Inr (take (j - i + 1) (drop i s)))"
proof (cases "find_first_not_of s T")
  case None
  then show ?thesis by (simp add: StrUtil_ToTrimmed_def)
next
  case (Some i)
  then have "\<not> set s \<subseteq> set T" using find_first_not_of_None [of s T] by simp
  then obtain j where j: "find_last_not_of s T = Some j"
    using find_last_not_of_None [of s T] by (cases "find_last_not_of s T") auto
  have ij: "i \<le> j" using Some j by (rule first_le_last)
  note i = find_first_not_of_Some(2,3) [OF Some]
  note j' = find_last_not_of_Some(1,2) [OF j]
  have "StrUtil_ToTrimmed s T = Inr (take (j - i + 1) (drop i s))"
    using Some j i(1) by (simp add: StrUtil_ToTrimmed_def basic_string_assign_def)
  with Some j ij i j' show ?thesis by blast
qed

lemma ToTrimmed_fixed:
  assumes "r \<noteq> []" "hd r \<notin> set T" "last r \<notin> set T"
  shows "StrUtil_ToTrimmed r T = Inr r"
  using assms
  by (simp add: StrUtil_ToTrimmed_def find_first_not_of_hd find_last_not_of_last
      basic_string_assign_def)

lemma substr_ends:
  assumes "i \<le> j" and "j < length s"
  shows "take (j - i + 1) (drop i s) \<noteq> []"
    and "hd (take (j - i + 1) (drop i s)) = s ! i"
    and "last (take (j - i + 1) (drop i s)) = s ! j"
proof -
  let ?r = "take (j - i + 1) (drop i s)"
  have len: "length ?r = j - i + 1" using assms by simp
  then show ne: "?r \<noteq> []" by auto
  have "hd ?r = hd (drop i s)" by simp
  also have "\<dots> = s ! i" using assms by (simp add: hd_drop_conv_nth)
  finally show "hd ?r = s ! i" .
  have "last ?r = ?r ! (j - i)" using ne len by (simp add: last_conv_nth)
  also have "\<dots> = drop i s ! (j - i)" by simp
  also have "\<dots> = s ! j" using assms by simp
  finally show "last ?r = s ! j" .
qed

lemma GetTrimmed_idem_aux:
  "\<exists>r. StrUtil_GetTrimmed s T = Inr r \<and> StrUtil_GetTrimmed r T = Inr r"
proof -
  consider (empty) "StrUtil_ToTrimmed s T = Inr []"
    | (sub) i j where "i \<le> j" "j < length s" "s ! i \<notin> set T" "s ! j \<notin> set T"
        "StrUtil_ToTrimmed s T = Inr (take (j - i + 1) (drop i s))"
    using ToTrimmed_cases [of s T] by blast
  then show ?thesis
  proof cases
    case empty
    moreover have "StrUtil_ToTrimmed [] T = Inr []"
      by (simp add: StrUtil_ToTrimmed_def)
    ultimately show ?thesis
      unfolding StrUtil_GetTrimmed_def by blast
  next
    case sub
    let ?r = "take (j - i + 1) (drop i s)"
    note e = substr_ends [OF sub(1,2)]
    have "StrUtil_ToTrimmed ?r T = Inr ?r"
    proof (rule ToTrimmed_fixed)
      show "?r \<noteq> []" by (rule e(1))
      show "hd ?r \<notin> set T" unfolding e(2) by (rule sub(3))
      show "last ?r \<notin> set T" unfolding e(3) by (rule sub(4))
    qed
    with sub(5) show ?thesis
      unfolding StrUtil_GetTrimmed_def by blast
  qed
qed

section \<open>Lemmas: XML escaping\<close>

lemma subst_char_same: "subst_char symb code symb = code"
  by (simp add: subst_char_def)

lemma subst_char_other: "c \<noteq> symb \<Longrightarrow> subst_char symb code c = [c]"
  by (simp add: subst_char_def)

lemma find_char_skip:
  "symb \<notin> set w \<Longrightarrow>
   find_char symb (w @ r) = (case find_char symb r of None \<Rightarrow> None | Some i \<Rightarrow> Some (length w + i))"
  by (induction w) (auto split: option.splits)

lemma basic_string_find_at:
  "basic_string_find (d @ r) symb (length d)
   = (case find_char symb r of None \<Rightarrow> None | Some i \<Rightarrow> Some (length d + i))"
  by (simp add: basic_string_find_def split: option.splits)

lemma basic_string_find_skip:
  assumes "symb \<notin> set w"
  shows "basic_string_find (d @ w @ r) symb (length d)
         = basic_string_find ((d @ w) @ r) symb (length (d @ w))"
proof -
  have "basic_string_find (d @ w @ r) symb (length d)
        = (case find_char symb (w @ r) of None \<Rightarrow> None | Some i \<Rightarrow> Some (length d + i))"
    by (rule basic_string_find_at)
  also have "\<dots> = (case find_char symb r of None \<Rightarrow> None | Some i \<Rightarrow> Some (length (d @ w) + i))"
    by (simp add: find_char_skip [OF assms] split: option.splits)
  also have "\<dots> = basic_string_find ((d @ w) @ r) symb (length (d @ w))"
    by (rule basic_string_find_at [symmetric])
  finally show ?thesis .
qed

lemma ToXmlSafe_while_subst:
  assumes "symb \<notin> set w"
  shows "ToXmlSafe_while symb (x # w) (basic_string_find (d @ r) symb (length d)) (d @ r)
         = Some (Inr (d @ concat (map (subst_char symb (x # w)) r)))"
proof (induction r arbitrary: d)
  case Nil
  show ?case
    by (subst ToXmlSafe_while.simps) (simp add: basic_string_find_def)
next
  case (Cons c r)
  show ?case
  proof (cases "c = symb")
    case True
    have pos: "basic_string_find (d @ c # r) symb (length d) = Some (length d)"
      using True by (simp add: basic_string_find_def)
    have rep: "basic_string_replace (d @ c # r) (length d) 1 (x # w) = Inr (d @ (x # w) @ r)"
      by (simp add: basic_string_replace_def)
    have nxt: "basic_string_find (d @ (x # w) @ r) symb (length d + 1)
               = basic_string_find ((d @ x # w) @ r) symb (length (d @ x # w))"
    proof -
      have "basic_string_find (d @ (x # w) @ r) symb (length d + 1)
            = basic_string_find ((d @ [x]) @ w @ r) symb (length (d @ [x]))"
        by simp
      also have "\<dots> = basic_string_find (((d @ [x]) @ w) @ r) symb (length ((d @ [x]) @ w))"
        by (rule basic_string_find_skip [OF assms])
      finally show ?thesis by simp
    qed
    have "ToXmlSafe_while symb (x # w) (basic_string_find (d @ c # r) symb (length d)) (d @ c # r)
          = ToXmlSafe_while symb (x # w) (basic_string_find ((d @ x # w) @ r) symb (length (d @ x # w)))
              ((d @ x # w) @ r)"
      by (subst ToXmlSafe_while.simps) (simp only: pos rep option.case sum.case nxt, simp)
    also have "\<dots> = Some (Inr ((d @ x # w) @ concat (map (subst_char symb (x # w)) r)))"
      by (rule Cons.IH)
    finally show ?thesis using True by (simp add: subst_char_same)
  next
    case False
    have "symb \<notin> set [c]" using False by simp
    from basic_string_find_skip [OF this, of d r]
    have "basic_string_find (d @ c # r) symb (length d)
          = basic_string_find ((d @ [c]) @ r) symb (length (d @ [c]))"
      by simp
    then have "ToXmlSafe_while symb (x # w) (basic_string_find (d @ c # r) symb (length d)) (d @ c # r)
          = ToXmlSafe_while symb (x # w) (basic_string_find ((d @ [c]) @ r) symb (length (d @ [c])))
              ((d @ [c]) @ r)"
      by simp
    also have "\<dots> = Some (Inr ((d @ [c]) @ concat (map (subst_char symb (x # w)) r)))"
      by (rule Cons.IH)
    finally show ?thesis using False by (simp add: subst_char_other)
  qed
qed

lemma ToXmlSafe_while_pass:
  assumes "symb \<notin> set w"
  shows "ToXmlSafe_while symb (x # w) (basic_string_find s symb 0) s
         = Some (Inr (concat (map (subst_char symb (x # w)) s)))"
  using ToXmlSafe_while_subst [OF assms, of x "[]" s] by simp


lemma ToXmlSafe_for_step:
  assumes "xmlCode (kXmlReplace ! index) = x # w" and "symbol m = sy" and "sy \<notin> set w"
  shows "ToXmlSafe_for (m # rest) index s
         = ToXmlSafe_for rest (Suc index) (concat (map (subst_char sy (x # w)) s))"
  using ToXmlSafe_while_pass [OF assms(3), of x s] assms(1,2) by simp

lemma five_passes_char:
  "concat (map (subst_char (CHR 0x27) ''&apos;'')
     (concat (map (subst_char (CHR 0x22) ''&quot;'')
        (concat (map (subst_char (CHR ''>'') ''&gt;'')
           (concat (map (subst_char (CHR ''<'') ''&lt;'')
              (subst_char (CHR ''&'') ''&amp;'' c))))))))
   = xml_escape_char_spec c"
  by (auto simp: subst_char_def xml_escape_char_spec_def)

lemma five_passes:
  "concat (map (subst_char (CHR 0x27) ''&apos;'')
     (concat (map (subst_char (CHR 0x22) ''&quot;'')
        (concat (map (subst_char (CHR ''>'') ''&gt;'')
           (concat (map (subst_char (CHR ''<'') ''&lt;'')
              (concat (map (subst_char (CHR ''&'') ''&amp;'') s)))))))))
   = xml_escape_spec s"
proof (induction s)
  case Nil
  show ?case by (simp add: xml_escape_spec_def)
next
  case (Cons c s)
  have "xml_escape_spec (c # s) = xml_escape_char_spec c @ xml_escape_spec s"
    by (simp add: xml_escape_spec_def)
  then show ?case
    unfolding list.map concat.simps map_append concat_append Cons.IH five_passes_char
    by simp
qed

lemma ToXmlSafe_for_table:
  "ToXmlSafe_for kXmlReplace 0 s
   = Some (Inr (concat (map (subst_char (CHR 0x27) ''&apos;'')
     (concat (map (subst_char (CHR 0x22) ''&quot;'')
        (concat (map (subst_char (CHR ''>'') ''&gt;'')
           (concat (map (subst_char (CHR ''<'') ''&lt;'')
              (concat (map (subst_char (CHR ''&'') ''&amp;'') s)))))))))))"
proof -
  let ?t4 = "[\<lparr>symbol = CHR 0x27, xmlCode = ''&apos;''\<rparr>]"
  let ?t3 = "\<lparr>symbol = CHR 0x22, xmlCode = ''&quot;''\<rparr> # ?t4"
  let ?t2 = "\<lparr>symbol = CHR ''>'', xmlCode = ''&gt;''\<rparr> # ?t3"
  let ?t1 = "\<lparr>symbol = CHR ''<'', xmlCode = ''&lt;''\<rparr> # ?t2"
  let ?s1 = "concat (map (subst_char (CHR ''&'') ''&amp;'') s)"
  let ?s2 = "concat (map (subst_char (CHR ''<'') ''&lt;'') ?s1)"
  let ?s3 = "concat (map (subst_char (CHR ''>'') ''&gt;'') ?s2)"
  let ?s4 = "concat (map (subst_char (CHR 0x22) ''&quot;'') ?s3)"
  let ?s5 = "concat (map (subst_char (CHR 0x27) ''&apos;'') ?s4)"
  have "ToXmlSafe_for kXmlReplace 0 s
        = ToXmlSafe_for (\<lparr>symbol = CHR ''&'', xmlCode = ''&amp;''\<rparr> # ?t1) 0 s"
    by (simp only: kXmlReplace_def)
  also have "\<dots> = ToXmlSafe_for ?t1 (Suc 0) ?s1"
    by (rule ToXmlSafe_for_step) (simp_all add: kXmlReplace_def)
  also have "\<dots> = ToXmlSafe_for ?t2 (Suc (Suc 0)) ?s2"
    by (rule ToXmlSafe_for_step) (simp_all add: kXmlReplace_def)
  also have "\<dots> = ToXmlSafe_for ?t3 (Suc (Suc (Suc 0))) ?s3"
    by (rule ToXmlSafe_for_step) (simp_all add: kXmlReplace_def)
  also have "\<dots> = ToXmlSafe_for ?t4 (Suc (Suc (Suc (Suc 0)))) ?s4"
    by (rule ToXmlSafe_for_step) (simp_all add: kXmlReplace_def)
  also have "\<dots> = ToXmlSafe_for [] (Suc (Suc (Suc (Suc (Suc 0))))) ?s5"
    by (rule ToXmlSafe_for_step) (simp_all add: kXmlReplace_def)
  also have "\<dots> = Some (Inr ?s5)"
    by simp
  finally show ?thesis .
qed

lemma ToXmlSafe_escape: "StrUtil_ToXmlSafe s = Some (Inr (xml_escape_spec s))"
  unfolding StrUtil_ToXmlSafe_def ToXmlSafe_for_table five_passes ..

section \<open>Lemmas: file names\<close>

lemma remove_if_loop_filter:
  "first \<le> i \<Longrightarrow> i \<le> length s \<Longrightarrow>
   take (snd (remove_if_loop P s first i)) (fst (remove_if_loop P s first i))
     = take first s @ filter (\<lambda>c. \<not> P c) (drop i s)
   \<and> length (fst (remove_if_loop P s first i)) = length s"
proof (induction P s first i rule: remove_if_loop.induct)
  case (1 pred str first i)
  show ?case
  proof (cases "i < length str")
    case False
    with "1.prems" show ?thesis
      by (subst (1 2 3) remove_if_loop.simps) simp
  next
    case lt: True
    show ?thesis
    proof (cases "pred (str ! i)")
      case True
      have d: "drop i str = str ! i # drop (Suc i) str"
        using lt by (simp add: Cons_nth_drop_Suc)
      from "1.IH"(2) [OF lt] True "1.prems" lt
      have "take (snd (remove_if_loop pred str first (Suc i))) (fst (remove_if_loop pred str first (Suc i)))
              = take first str @ filter (\<lambda>c. \<not> pred c) (drop (Suc i) str)
            \<and> length (fst (remove_if_loop pred str first (Suc i))) = length str"
        by simp
      then show ?thesis
        using lt True by (subst (1 2 3) remove_if_loop.simps) (simp add: d)
    next
      case False
      let ?s = "str[first := str ! i]"
      have d: "drop i str = str ! i # drop (Suc i) str"
        using lt by (simp add: Cons_nth_drop_Suc)
      have fl: "first < length str" using "1.prems" lt by simp
      from "1.IH"(1) [OF lt False] "1.prems" lt
      have ih: "take (snd (remove_if_loop pred ?s (Suc first) (Suc i))) (fst (remove_if_loop pred ?s (Suc first) (Suc i)))
              = take (Suc first) ?s @ filter (\<lambda>c. \<not> pred c) (drop (Suc i) ?s)
            \<and> length (fst (remove_if_loop pred ?s (Suc first) (Suc i))) = length ?s"
        by simp
      have t: "take (Suc first) ?s = take first str @ [str ! i]"
        using fl by (simp add: take_Suc_conv_app_nth)
      have dd: "drop (Suc i) ?s = drop (Suc i) str"
        using "1.prems" by simp
      show ?thesis
        using lt False ih
        by (subst (1 2 3) remove_if_loop.simps) (simp add: d t dd)
    qed
  qed
qed

lemma find_if_None: "find_if P s = None \<Longrightarrow> filter (\<lambda>c. \<not> P c) s = s"
  by (induction s) (auto split: if_splits)

lemma find_if_Some:
  assumes "find_if P s = Some f"
  shows "f < length s" and "P (s ! f)" and "filter (\<lambda>c. \<not> P c) (take f s) = take f s"
  using assms by (induction s arbitrary: f) (auto split: if_splits)

lemma remove_if_erase:
  "(case remove_if s P of (s', removedBeg) \<Rightarrow> basic_string_erase s' removedBeg (length s'))
   = filter (\<lambda>c. \<not> P c) s"
proof (cases "find_if P s")
  case None
  then show ?thesis
    by (simp add: remove_if_def basic_string_erase_def find_if_None)
next
  case (Some f)
  note f = find_if_Some [OF Some]
  let ?r = "remove_if_loop P s f (Suc f)"
  have r: "take (snd ?r) (fst ?r) = take f s @ filter (\<lambda>c. \<not> P c) (drop (Suc f) s)"
    and l: "length (fst ?r) = length s"
    using remove_if_loop_filter [of f "Suc f" s P] f(1) by simp_all
  have "filter (\<lambda>c. \<not> P c) s = filter (\<lambda>c. \<not> P c) (take f s @ s ! f # drop (Suc f) s)"
    using f(1) by (simp add: id_take_nth_drop [symmetric])
  also have "\<dots> = take f s @ filter (\<lambda>c. \<not> P c) (drop (Suc f) s)"
    using f(2,3) by simp
  finally have "filter (\<lambda>c. \<not> P c) s = take (snd ?r) (fst ?r)" using r by simp
  then show ?thesis
    using Some by (simp add: remove_if_def basic_string_erase_def case_prod_beta)
qed

lemma ToGoodFileName_Remove:
  "StrUtil_ToGoodFileName s ConvertWildcards_Remove
   = filter (\<lambda>c. \<not> CharUtil_IsWildcardFileChar c) (map CharUtil_ToGoodFileChar s)"
  using remove_if_erase [of "map CharUtil_ToGoodFileChar s" CharUtil_IsWildcardFileChar]
  by (simp add: StrUtil_ToGoodFileName_def Let_def)

section \<open>Lemmas: durations and the string list\<close>

lemma std_format_days: "std_format ''{}d:'' [n] = Inr (show_nat n @ ''d:'')"
  by (simp add: then_append_def)

lemma chrono_format_HhMmSs:
  "chrono_format ''%Hh:%Mm:%Ss'' n
   = Inr (two_digits (n div 3600 mod 24) @ ''h:'' @ two_digits (n div 60 mod 60) @ ''m:'' @
          two_digits (n mod 60) @ ''s'')"
  by (simp add: then_append_def)

lemma chrono_format_MmSs:
  "chrono_format ''%Mm:%Ss'' n
   = Inr (two_digits (n div 60 mod 60) @ ''m:'' @ two_digits (n mod 60) @ ''s'')"
  by (simp add: then_append_def)

lemma std_vformat_returns:
  "\<exists>t. std_vformat kHhMmSs sec = Inr t"
  "\<exists>t. std_vformat kMmSs sec = Inr t"
  by (simp_all add: std_vformat_def kHhMmSs_def kMmSs_def Let_def chrono_format_HhMmSs
      chrono_format_MmSs then_append_def)

lemma GetDurationStr_returns: "\<exists>t. StrUtil_GetDurationStr totalSeconds minDays = Inr t"
proof -
  obtain a where a: "std_vformat kHhMmSs
      (sint (totalSeconds - totalSeconds div (60 * 60) div 24 * (60 * 60 * 24))) = Inr a"
    using std_vformat_returns(1) by blast
  obtain b where b: "std_vformat kHhMmSs (sint totalSeconds) = Inr b"
    using std_vformat_returns(1) by blast
  obtain c where c: "std_vformat kMmSs (sint totalSeconds) = Inr c"
    using std_vformat_returns(2) by blast
  show ?thesis
    unfolding StrUtil_GetDurationStr_def Let_def std_format_days
    using a b c by (simp add: then_append_def)
qed

lemma GetDurationStr_examples:
  "StrUtil_GetDurationStr 90061 3 = Inr ''01h:01m:01s''"
  "StrUtil_GetDurationStr 259261 3 = Inr ''3d:00h:01m:01s''"
  "StrUtil_GetDurationStr 61 3 = Inr ''01m:01s''"
  by (simp_all add: StrUtil_GetDurationStr_def std_vformat_def kHhMmSs_def kMmSs_def Let_def
      two_digits_def show_nat.simps word_le_nat_alt then_append_def)

lemma StrList_eq_loop_eq:
  "length xs = length ys \<Longrightarrow> StrList_eq_loop xs ys = Some (xs = ys)"
  by (induction xs ys rule: StrList_eq_loop.induct) auto

lemma StrList_operator_eq_iff: "StrList_operator_eq lhs rhs = Some (list_items lhs = list_items rhs)"
  by (auto simp: StrList_operator_eq_def StrList_size_def StrList_eq_loop_eq)

lemma list_items_range: "list_items (StrListT_range xs) = xs"
  by (simp add: StrListT_range_def)

lemma StrList_push_back_all:
  "foldl StrList_push_back (StrListT_range xs) ys = StrListT_range (xs @ ys)"
  by (induction ys arbitrary: xs) (simp_all add: StrList_push_back_def StrListT_range_def)

lemma IsNumeric_eval:
  "StrUtil_IsNumeric ''-''"
  "StrUtil_IsNumeric ''-123.5''"
  "\<not> StrUtil_IsNumeric []"
  "\<not> StrUtil_IsNumeric ''12-3''"
  by (simp_all add: StrUtil_IsNumeric_def CharUtil_IsNumeric_def CharUtil_IsDigit_def
      std_isdigit_def byte_def)

lemma IsNumeric_char:
  "StrUtil_IsNumeric s =
     (s \<noteq> [] \<and> list_all CharUtil_IsNumeric (if hd s = CHR ''-'' then tl s else s))"
  by (cases s) (simp_all add: StrUtil_IsNumeric_def)

lemma IsWildcardFileChar_iff:
  "CharUtil_IsWildcardFileChar c = (c = CHR ''*'' \<or> c = CHR ''?'')"
  by (simp add: CharUtil_IsWildcardFileChar_def kWildcardChars_def)

lemma ToGoodFileChar_control:
  "CharUtil_IsControlChar c \<Longrightarrow> CharUtil_ToGoodFileChar c = CHR ''!''"
  by (simp add: CharUtil_ToGoodFileChar_def CharUtil_ToGoodFileCharEx_def)

lemma ToGoodFileChar_bad:
  "map CharUtil_ToGoodFileChar (map special kBadFileChars) = map replacement kBadFileChars"
  by (simp add: CharUtil_ToGoodFileChar_def CharUtil_ToGoodFileCharEx_def kBadFileChars_def
      CharUtil_IsControlChar_def std_iscntrl_def byte_def)

lemma ToGoodFileChar_star: "CharUtil_ToGoodFileChar (CHR ''*'') = CHR ''*''"
  by (simp add: CharUtil_ToGoodFileChar_def CharUtil_ToGoodFileCharEx_def kBadFileChars_def
      CharUtil_IsControlChar_def std_iscntrl_def byte_def)

lemma ToGoodFileChar_question: "CharUtil_ToGoodFileChar (CHR ''?'') = CHR ''?''"
  by (simp add: CharUtil_ToGoodFileChar_def CharUtil_ToGoodFileCharEx_def kBadFileChars_def
      CharUtil_IsControlChar_def std_iscntrl_def byte_def)

lemma ToGoodFileChar_wildcard:
  assumes "CharUtil_IsWildcardFileChar w"
  shows "CharUtil_ToGoodFileChar w = w"
proof -
  have "w = CHR ''*'' \<or> w = CHR ''?''"
    using assms by (simp add: IsWildcardFileChar_iff)
  then show ?thesis
    using ToGoodFileChar_star ToGoodFileChar_question by blast
qed

lemma GetGoodFileName_example:
  "StrUtil_GetGoodFileName ''my*file?.txt'' ConvertWildcards_Remove = ''myfile.txt''"
  by (simp add: StrUtil_GetGoodFileName_def ToGoodFileName_Remove CharUtil_IsWildcardFileChar_def
      CharUtil_ToGoodFileChar_def CharUtil_ToGoodFileCharEx_def CharUtil_IsControlChar_def
      std_iscntrl_def byte_def kBadFileChars_def kWildcardChars_def)

section \<open>The claims\<close>

text \<open>
  C1. For \<open>totalSeconds = 90061\<close> and \<open>minDays = 3\<close>,
  \<open>GetDurationStr(90061, 3)\<close> returns exactly \<open>"01h:01m:01s"\<close>: the whole-day
  count, 1, is below \<open>minDays\<close>, so the day field is left out, and the hour, minute
  and second fields show 1, 1 and 1, each zero-padded to two digits. The fields are
  printed by the formatting facility as the specification describes it.
\<close>

theorem GetDurationStr_90061_3:
  "StrUtil_GetDurationStr 90061 3 = Inr ''01h:01m:01s'' \<and>
   (90061 :: 64 word) div (60 * 60) div 24 = 1 \<and>
   (90061 :: 64 word) div (60 * 60) div 24 < 3"
  by (simp add: GetDurationStr_examples(1) word_less_nat_alt)

text \<open>
  C2. What \<open>StrUtil::IsNumeric\<close> computes: the string is not empty and, a leading
  \<open>'-'\<close> skipped, every remaining character is a digit or \<open>'.'\<close>. On
  \<open>"-123.5"\<close> it is true, on \<open>""\<close> and \<open>"12-3"\<close> false; on the lone \<open>"-"\<close>
  nothing remains after the sign, and it is true, where the claim says false.
\<close>

theorem IsNumeric_lone_minus:
  "StrUtil_IsNumeric ''-'' \<and>
   StrUtil_IsNumeric ''-123.5'' \<and>
   \<not> StrUtil_IsNumeric [] \<and>
   \<not> StrUtil_IsNumeric ''12-3'' \<and>
   StrUtil_IsNumeric s =
     (s \<noteq> [] \<and> list_all CharUtil_IsNumeric (if hd s = CHR ''-'' then tl s else s))"
  using IsNumeric_char [of s] by (simp only: IsNumeric_eval simp_thms)

text \<open>
  C3. \<open>ToXmlSafe\<close> ends, without a failure, with every \<open>&\<close>, \<open><\<close>, \<open>>\<close>,
  \<open>"\<close> and \<open>'\<close> of the string replaced by \<open>&amp;\<close>, \<open>&lt;\<close>, \<open>&gt;\<close>,
  \<open>&quot;\<close> and \<open>&apos;\<close>: the table is run with \<open>&\<close> first, and the result
  is the one-step replacement of every character of the input, so no \<open>&\<close> of an
  escape sequence is escaped again. \<open>"a & b < c"\<close> becomes \<open>"a &amp; b &lt; c"\<close>,
  and \<open>"&amp;"\<close> becomes \<open>"&amp;amp;"\<close>: the operation is not idempotent.
\<close>

theorem ToXmlSafe_escapes_every_special_character:
  "StrUtil_ToXmlSafe s = Some (Inr (xml_escape_spec s)) \<and>
   StrUtil_GetXmlSafe s = Some (Inr (xml_escape_spec s)) \<and>
   map symbol kXmlReplace = [CHR ''&'', CHR ''<'', CHR ''>'', CHR 0x22, CHR 0x27] \<and>
   StrUtil_ToXmlSafe ''a & b < c'' = Some (Inr ''a &amp; b &lt; c'') \<and>
   StrUtil_ToXmlSafe ''&amp;'' = Some (Inr ''&amp;amp;'')"
  by (simp add: StrUtil_GetXmlSafe_def ToXmlSafe_escape xml_escape_spec_def
      xml_escape_char_spec_def kXmlReplace_def)

text \<open>
  C4. \<open>ToGoodFileName(s, ConvertWildcards::Remove)\<close> maps every character through
  \<open>ToGoodFileChar\<close> and then deletes every wildcard character, \<open>*\<close> and \<open>?\<close>,
  from the result. \<open>ToGoodFileChar\<close> turns a control character into \<open>!\<close>, a
  character of the bad-filename table into its replacement, and leaves a wildcard as
  it is. \<open>GetGoodFileName("my*file?.txt", Remove)\<close> is \<open>"myfile.txt"\<close>.
\<close>

theorem ToGoodFileName_Remove_deletes_wildcards:
  "StrUtil_ToGoodFileName s ConvertWildcards_Remove
     = filter (\<lambda>c. \<not> CharUtil_IsWildcardFileChar c) (map CharUtil_ToGoodFileChar s) \<and>
   CharUtil_IsWildcardFileChar c = (c = CHR ''*'' \<or> c = CHR ''?'') \<and>
   (CharUtil_IsControlChar c \<longrightarrow> CharUtil_ToGoodFileChar c = CHR ''!'') \<and>
   map CharUtil_ToGoodFileChar (map special kBadFileChars) = map replacement kBadFileChars \<and>
   (CharUtil_IsWildcardFileChar w \<longrightarrow> CharUtil_ToGoodFileChar w = w) \<and>
   StrUtil_GetGoodFileName ''my*file?.txt'' ConvertWildcards_Remove = ''myfile.txt''"
  using ToGoodFileName_Remove [of s] IsWildcardFileChar_iff [of c] ToGoodFileChar_control [of c]
    ToGoodFileChar_bad ToGoodFileChar_wildcard [of w] GetGoodFileName_example
  by blast

theorem ToGoodFileName_Remove_deletes_wildcards_witness:
  "CharUtil_IsControlChar (CHR 0x09) \<and> CharUtil_ToGoodFileChar (CHR 0x09) = CHR ''!'' \<and>
   CharUtil_IsWildcardFileChar (CHR ''?'') \<and> CharUtil_ToGoodFileChar (CHR ''?'') = CHR ''?'' \<and>
   StrUtil_ToGoodFileName ''a?:*'' ConvertWildcards_Remove = ''a-''"
proof -
  have ctl: "CharUtil_IsControlChar (CHR 0x09)"
    by (simp add: CharUtil_IsControlChar_def std_iscntrl_def byte_def)
  have wild: "CharUtil_IsWildcardFileChar (CHR ''?'')"
    by (simp add: CharUtil_IsWildcardFileChar_def kWildcardChars_def)
  note t = ToGoodFileName_Remove_deletes_wildcards [of "''a?:*''" "CHR 0x09" "CHR ''?''"]
  have "StrUtil_ToGoodFileName ''a?:*'' ConvertWildcards_Remove
        = filter (\<lambda>c. \<not> CharUtil_IsWildcardFileChar c) (map CharUtil_ToGoodFileChar ''a?:*'')"
    using t by blast
  also have "\<dots> = ''a-''"
    by (simp add: CharUtil_IsWildcardFileChar_def kWildcardChars_def CharUtil_ToGoodFileChar_def
        CharUtil_ToGoodFileCharEx_def kBadFileChars_def CharUtil_IsControlChar_def
        std_iscntrl_def byte_def)
  finally show ?thesis using t ctl wild by blast
qed

text \<open>
  C5. \<open>GetTrimmedLeading(s, T)\<close> returns \<open>s\<close> without its longest leading run of
  characters of \<open>T\<close>, and removes nothing else: \<open>s\<close> is the removed run followed by
  the result, so the size of the result plus the number of characters removed from the
  front is \<open>s.size()\<close>; and when every character of \<open>s\<close> belongs to \<open>T\<close> the
  result is the empty string.
\<close>

theorem GetTrimmedLeading_removes_leading_run:
  "\<exists>removed r.
     StrUtil_GetTrimmedLeading s T = Inr r \<and>
     removed = takeWhile (\<lambda>c. c \<in> set T) s \<and>
     r = dropWhile (\<lambda>c. c \<in> set T) s \<and>
     s = removed @ r \<and>
     length r + length removed = length s \<and>
     (set s \<subseteq> set T \<longrightarrow> r = [])"
proof -
  have "length (takeWhile (\<lambda>c. c \<in> set T) s @ dropWhile (\<lambda>c. c \<in> set T) s) = length s"
    by (simp only: takeWhile_dropWhile_id)
  then have "length (dropWhile (\<lambda>c. c \<in> set T) s) + length (takeWhile (\<lambda>c. c \<in> set T) s)
        = length s"
    by (simp only: length_append add.commute)
  moreover have "set s \<subseteq> set T \<longrightarrow> dropWhile (\<lambda>c. c \<in> set T) s = []"
    by auto
  ultimately show ?thesis
    by (simp add: StrUtil_GetTrimmedLeading_def ToTrimmedLeading_dropWhile)
qed

theorem GetTrimmedLeading_removes_leading_run_witness:
  "set ''  '' \<subseteq> set '' x'' \<and> StrUtil_GetTrimmedLeading ''  '' '' x'' = Inr [] \<and>
   StrUtil_GetTrimmedLeading '' xab c '' '' x'' = Inr ''ab c ''"
proof -
  have sub: "set ''  '' \<subseteq> set '' x''" by simp
  from GetTrimmedLeading_removes_leading_run [of "''  ''" "'' x''"] sub
  have a: "StrUtil_GetTrimmedLeading ''  '' '' x'' = Inr []" by auto
  from GetTrimmedLeading_removes_leading_run [of "'' xab c ''" "'' x''"]
  have b: "StrUtil_GetTrimmedLeading '' xab c '' '' x'' = Inr ''ab c ''" by simp
  from sub a b show ?thesis by blast
qed

text \<open>
  C6. \<open>GetTrimmed\<close> is idempotent: \<open>GetTrimmed(s, T)\<close> returns a string, and
  \<open>GetTrimmed\<close> of that string with the same \<open>T\<close> returns it again.
\<close>

theorem GetTrimmed_idempotent:
  "\<exists>r. StrUtil_GetTrimmed s T = Inr r \<and> StrUtil_GetTrimmed r T = Inr r"
  by (rule GetTrimmed_idem_aux)

text \<open>
  C7. Whole-string case conversion is idempotent: converting a string to upper case
  twice gives what converting it once gives, for \<open>ToUpper\<close> and \<open>GetUpper\<close>, and
  likewise for \<open>ToLower\<close> and \<open>GetLower\<close>.
\<close>

theorem case_conversion_idempotent:
  "StrUtil_ToUpper (StrUtil_ToUpper s) = StrUtil_ToUpper s \<and>
   StrUtil_GetUpper (StrUtil_GetUpper s) = StrUtil_GetUpper s \<and>
   StrUtil_ToLower (StrUtil_ToLower s) = StrUtil_ToLower s \<and>
   StrUtil_GetLower (StrUtil_GetLower s) = StrUtil_GetLower s"
  by (simp add: StrUtil_ToUpper_def StrUtil_GetUpper_def StrUtil_ToLower_def
      StrUtil_GetLower_def CharUtil_ToUpper_idem CharUtil_ToLower_idem)

text \<open>
  C8. \<open>operator==\<close> on two \<open>StrListT\<close> values is true exactly when they have the
  same number of elements and the elements at every position are equal strings. So
  two lists built from the same elements in the same order, by the range constructor
  or by \<open>push_back\<close>, are equal, and two lists that hold the same strings the same
  number of times in different orders are not.
\<close>

theorem StrList_equality_is_elementwise:
  "StrList_operator_eq lhs rhs =
     Some (StrList_size lhs = StrList_size rhs \<and>
           (\<forall>k < StrList_size lhs. list_items lhs ! k = list_items rhs ! k)) \<and>
   StrList_operator_eq (StrListT_range xs) (StrListT_range xs) = Some True \<and>
   StrList_operator_eq (foldl StrList_push_back (StrListT_range []) xs) (StrListT_range xs)
     = Some True \<and>
   (mset xs = mset ys \<and> xs \<noteq> ys \<longrightarrow>
      StrList_operator_eq (StrListT_range xs) (StrListT_range ys) = Some False)"
proof -
  have "(list_items lhs = list_items rhs) =
        (StrList_size lhs = StrList_size rhs \<and>
         (\<forall>k < StrList_size lhs. list_items lhs ! k = list_items rhs ! k))"
    by (simp add: StrList_size_def list_eq_iff_nth_eq)
  then show ?thesis
    by (simp add: StrList_operator_eq_iff StrList_push_back_all list_items_range)
qed

theorem StrList_equality_is_elementwise_witness:
  "mset [''a'', ''b''] = mset [''b'', ''a''] \<and>
   StrList_operator_eq (StrListT_range [''a'', ''b'']) (StrListT_range [''b'', ''a'']) = Some False \<and>
   StrList_operator_eq (StrListT_range [''a'', ''b'']) (StrListT_range [''a'', ''b'']) = Some True"
proof -
  have m: "mset [''a'', ''b''] = mset [''b'', ''a'']" by simp
  have n: "[''a'', ''b''] \<noteq> [''b'', ''a'']" by simp
  note t = StrList_equality_is_elementwise
    [of "StrListT_range [''a'', ''b'']" "StrListT_range [''a'', ''b'']" "[''a'', ''b'']" "[''b'', ''a'']"]
  from t m n show ?thesis by blast
qed

text \<open>
  C9. Every string operation of \<open>StrUtilT\<close> is total: whatever the call and its
  arguments, it returns a value; it does not run forever, and it stops neither at the
  assertion nor with an exception of \<open>assign\<close>, \<open>replace\<close> or the formatter.
  In particular the assertion in \<open>ToTrimmed\<close> does not fail: the forward search
  finds a character outside the trim set exactly when the backward search does, and the
  assertion is reached only after the forward search has found one.
\<close>

theorem StrUtil_operations_total:
  "(\<exists>v. StrUtil_run call = Some (Inr v)) \<and>
   (\<exists>r. StrUtil_ToTrimmed s T = Inr r) \<and>
   StrUtil_ToTrimmed s T \<noteq> Inl AssertionFailed \<and>
   (find_first_not_of s T = None) = (find_last_not_of s T = None)"
proof -
  have trimmed: "\<exists>r. StrUtil_ToTrimmed str trimCharset = Inr r" for str trimCharset
    using ToTrimmed_cases [of str trimCharset] by blast
  have run: "\<exists>v. StrUtil_run call = Some (Inr v)"
  proof (cases call)
    case (Call_ToTrimmed str trimCharset)
    then show ?thesis
      using trimmed [of str trimCharset] by (auto simp: StrUtil_run_def string_outcome_def)
  next
    case (Call_GetTrimmed str trimCharset)
    then show ?thesis
      using trimmed [of str trimCharset]
      by (auto simp: StrUtil_run_def string_outcome_def StrUtil_GetTrimmed_def)
  next
    case (Call_GetDurationStr totalSeconds minDays)
    then show ?thesis
      using GetDurationStr_returns [of totalSeconds minDays]
      by (auto simp: StrUtil_run_def string_outcome_def)
  qed (simp_all add: StrUtil_run_def string_outcome_def StrUtil_GetXmlSafe_def ToXmlSafe_escape
        StrUtil_GetTrimmedLeading_def ToTrimmedLeading_dropWhile)
  have "(find_first_not_of s T = None) = (find_last_not_of s T = None)"
    by (simp add: find_first_not_of_None find_last_not_of_None)
  moreover obtain r where "StrUtil_ToTrimmed s T = Inr r"
    using trimmed by blast
  ultimately show ?thesis
    using run by simp
qed

text \<open>
  C10. On the empty string \<open>IsGoodFileName\<close> returns true in both
  \<open>AllowWildcards\<close> modes and \<open>ContainsWildcard\<close> returns false, while
  \<open>IsDigit\<close>, \<open>IsNumeric\<close>, \<open>IsAlphaNum\<close>, \<open>IsPrintable\<close> and
  \<open>IsExtendedAscii\<close> all return false.
\<close>

theorem empty_string_predicates:
  "StrUtil_IsGoodFileName [] AllowWildcards_No \<and>
   StrUtil_IsGoodFileName [] AllowWildcards_Yes \<and>
   \<not> StrUtil_ContainsWildcard [] \<and>
   \<not> StrUtil_IsDigit [] \<and>
   \<not> StrUtil_IsNumeric [] \<and>
   \<not> StrUtil_IsAlphaNum [] \<and>
   \<not> StrUtil_IsPrintable [] \<and>
   \<not> StrUtil_IsExtendedAscii []"
  by (simp add: StrUtil_IsGoodFileName_def StrUtil_ContainsWildcard_def StrUtil_IsDigit_def
      StrUtil_IsNumeric_def StrUtil_IsAlphaNum_def StrUtil_IsPrintable_def
      StrUtil_IsExtendedAscii_def)

end
